theory Spec2Isabelle
  imports Main "HOL-Library.Word"
begin

unbundle bit_operations_syntax

section \<open>SDP3x driver: data model\<close>

text \<open>
  The embedding follows the driver of \<^verbatim>\<open>SDP3x.cpp\<close> with the methods
  \<^verbatim>\<open>WriteCommand\<close>, \<^verbatim>\<open>ReadData\<close>, \<^verbatim>\<open>Begin\<close>, \<^verbatim>\<open>StartContinuous\<close>,
  \<^verbatim>\<open>TriggerMeasurement\<close>, \<^verbatim>\<open>GetMeasurement\<close>, \<^verbatim>\<open>ReadProductID\<close>, \<^verbatim>\<open>Reset\<close> and
  \<^verbatim>\<open>GetPressureScale\<close>, together with the constants and the CRC table of \<^verbatim>\<open>SDP3x.h\<close>.
  The latest revision of the file spells the same methods \<^verbatim>\<open>writeCommand\<close>,
  \<^verbatim>\<open>readData\<close>, \<^verbatim>\<open>begin\<close>, ..., \<^verbatim>\<open>readProductID\<close>; it differs from the one before
  in how many words \<^verbatim>\<open>readProductID\<close> requests, and there the latest revision is
  the one embedded.
\<close>

type_synonym uint8_t = "8 word"
type_synonym int16_t = "16 word"
type_synonym uint32_t = "32 word"
type_synonym uint64_t = "64 word"

text \<open>
  \<^verbatim>\<open>enum Model { SDP31, SDP32 }\<close>. The field \<^verbatim>\<open>number\<close> of the class is never
  initialised by the constructor and \<^verbatim>\<open>GetPressureScale\<close> switches over it with a
  \<^verbatim>\<open>default\<close> branch, so the field is kept as the integer it is stored as: the two
  enumerators are 0 and 1, any other content reaches the \<^verbatim>\<open>default\<close> branch.
\<close>

type_synonym Model = nat

definition SDP31 :: Model where
  "SDP31 = 0"

definition SDP32 :: Model where
  "SDP32 = 1"

text \<open>
  \<^verbatim>\<open>enum TempCompensation { MassFlow, DiffPressure }\<close>. The field \<^verbatim>\<open>comp\<close> is only ever
  assigned from a constructor argument of this type, so the \<^verbatim>\<open>default: return false\<close>
  branches of the switches over it are unreachable and have no counterpart here.
\<close>

datatype TempCompensation = MassFlow | DiffPressure

subsection \<open>I2C command definitions and model parameters\<close>

definition StartContMassFlowAvg :: "uint8_t list" where
  "StartContMassFlowAvg = [0x36, 0x03]"

definition StartContMassFlow :: "uint8_t list" where
  "StartContMassFlow = [0x36, 0x08]"

definition StartContDiffPressureAvg :: "uint8_t list" where
  "StartContDiffPressureAvg = [0x36, 0x15]"

definition StartContDiffPressure :: "uint8_t list" where
  "StartContDiffPressure = [0x36, 0x1E]"

definition StopCont :: "uint8_t list" where
  "StopCont = [0x3F, 0xF9]"

definition TrigMassFlow :: "uint8_t list" where
  "TrigMassFlow = [0x36, 0x24]"

definition TrigMassFlowStretch :: "uint8_t list" where
  "TrigMassFlowStretch = [0x37, 0x26]"

definition TrigDiffPressure :: "uint8_t list" where
  "TrigDiffPressure = [0x36, 0x2F]"

definition TrigDiffPressureStretch :: "uint8_t list" where
  "TrigDiffPressureStretch = [0x37, 0x2D]"

definition ReadInfo1 :: "uint8_t list" where
  "ReadInfo1 = [0x36, 0x7C]"

definition ReadInfo2 :: "uint8_t list" where
  "ReadInfo2 = [0xE1, 0x02]"

definition SoftReset :: "uint8_t list" where
  "SoftReset = [0x00, 0x06]"

definition SDP31_PID :: uint32_t where
  "SDP31_PID = 0x03010188"

definition SDP32_PID :: uint32_t where
  "SDP32_PID = 0x03010288"

definition SDP31_DiffScale :: uint8_t where
  "SDP31_DiffScale = 60"

definition SDP32_DiffScale :: uint8_t where
  "SDP32_DiffScale = 240"

definition SDP3X_TempScale :: uint8_t where
  "SDP3X_TempScale = 200"

subsection \<open>The CRC-8 lookup table\<close>

definition CRC_LUT :: "uint8_t list" where
  "CRC_LUT =
    [0x00, 0x31, 0x62, 0x53, 0xC4, 0xF5, 0xA6, 0x97, 0xB9, 0x88, 0xDB, 0xEA, 0x7D, 0x4C, 0x1F,
     0x2E, 0x43, 0x72, 0x21, 0x10, 0x87, 0xB6, 0xE5, 0xD4, 0xFA, 0xCB, 0x98, 0xA9, 0x3E, 0x0F,
     0x5C, 0x6D, 0x86, 0xB7, 0xE4, 0xD5, 0x42, 0x73, 0x20, 0x11, 0x3F, 0x0E, 0x5D, 0x6C, 0xFB,
     0xCA, 0x99, 0xA8, 0xC5, 0xF4, 0xA7, 0x96, 0x01, 0x30, 0x63, 0x52, 0x7C, 0x4D, 0x1E, 0x2F,
     0xB8, 0x89, 0xDA, 0xEB, 0x3D, 0x0C, 0x5F, 0x6E, 0xF9, 0xC8, 0x9B, 0xAA, 0x84, 0xB5, 0xE6,
     0xD7, 0x40, 0x71, 0x22, 0x13, 0x7E, 0x4F, 0x1C, 0x2D, 0xBA, 0x8B, 0xD8, 0xE9, 0xC7, 0xF6,
     0xA5, 0x94, 0x03, 0x32, 0x61, 0x50, 0xBB, 0x8A, 0xD9, 0xE8, 0x7F, 0x4E, 0x1D, 0x2C, 0x02,
     0x33, 0x60, 0x51, 0xC6, 0xF7, 0xA4, 0x95, 0xF8, 0xC9, 0x9A, 0xAB, 0x3C, 0x0D, 0x5E, 0x6F,
     0x41, 0x70, 0x23, 0x12, 0x85, 0xB4, 0xE7, 0xD6, 0x7A, 0x4B, 0x18, 0x29, 0xBE, 0x8F, 0xDC,
     0xED, 0xC3, 0xF2, 0xA1, 0x90, 0x07, 0x36, 0x65, 0x54, 0x39, 0x08, 0x5B, 0x6A, 0xFD, 0xCC,
     0x9F, 0xAE, 0x80, 0xB1, 0xE2, 0xD3, 0x44, 0x75, 0x26, 0x17, 0xFC, 0xCD, 0x9E, 0xAF, 0x38,
     0x09, 0x5A, 0x6B, 0x45, 0x74, 0x27, 0x16, 0x81, 0xB0, 0xE3, 0xD2, 0xBF, 0x8E, 0xDD, 0xEC,
     0x7B, 0x4A, 0x19, 0x28, 0x06, 0x37, 0x64, 0x55, 0xC2, 0xF3, 0xA0, 0x91, 0x47, 0x76, 0x25,
     0x14, 0x83, 0xB2, 0xE1, 0xD0, 0xFE, 0xCF, 0x9C, 0xAD, 0x3A, 0x0B, 0x58, 0x69, 0x04, 0x35,
     0x66, 0x57, 0xC0, 0xF1, 0xA2, 0x93, 0xBD, 0x8C, 0xDF, 0xEE, 0x79, 0x48, 0x1B, 0x2A, 0xC1,
     0xF0, 0xA3, 0x92, 0x05, 0x34, 0x67, 0x56, 0x78, 0x49, 0x1A, 0x2B, 0xBC, 0x8D, 0xDE, 0xEF,
     0x82, 0xB3, 0xE0, 0xD1, 0x46, 0x77, 0x24, 0x15, 0x3B, 0x0A, 0x59, 0x68, 0xFF, 0xCE, 0x9D,
     0xAC]"

text \<open>
  The CRC update of the read loop, \<^verbatim>\<open>crc = CRC_LUT[crc ^ *next]\<close>, and the CRC of one
  word as the loop computes it: \<^verbatim>\<open>crc\<close> is \<^verbatim>\<open>0xFF\<close> at the start of a word and is
  updated with the two payload bytes in wire order.
\<close>

definition crc_update :: "uint8_t \<Rightarrow> uint8_t \<Rightarrow> uint8_t" where
  "crc_update crc b = CRC_LUT ! unat (crc XOR b)"

definition crc_word :: "uint8_t \<Rightarrow> uint8_t \<Rightarrow> uint8_t" where
  "crc_word b0 b1 = crc_update (crc_update 0xFF b0) b1"

subsection \<open>The bit-by-bit CRC-8 of the specification\<close>

text \<open>
  Written from the words of the specification, for comparison with the table:
  polynomial \<^verbatim>\<open>0x31\<close>, initial value \<^verbatim>\<open>0xFF\<close>, most significant bit first (no
  reflection of input or output), no final XOR. \<open>crc8_shift\<close> is the step for one
  bit, \<open>crc8_bits n\<close> runs \<open>n\<close> of them, \<open>crc8_bitwise\<close> is the CRC of a byte
  sequence.
\<close>

definition crc8_shift :: "uint8_t \<Rightarrow> uint8_t" where
  "crc8_shift c = (if bit c 7 then push_bit 1 c XOR 0x31 else push_bit 1 c)"

fun crc8_bits :: "nat \<Rightarrow> uint8_t \<Rightarrow> uint8_t" where
  "crc8_bits 0 c = c"
| "crc8_bits (Suc n) c = crc8_bits n (crc8_shift c)"

definition crc8_bitwise :: "uint8_t list \<Rightarrow> uint8_t" where
  "crc8_bitwise bs = foldl (\<lambda>crc b. crc8_bits 8 (crc XOR b)) 0xFF bs"

section \<open>The bus collaborator\<close>

text \<open>
  \<^verbatim>\<open>Wire\<close> is the Arduino I2C library. Its state is the list of operations the driver
  has performed on it and the bytes received by the last \<^verbatim>\<open>requestFrom\<close> that have not
  been read yet. What the bus answers is an argument of the operation that asks:
  the number of bytes \<^verbatim>\<open>write\<close> accepted, the status of \<^verbatim>\<open>endTransmission\<close>, and
  the bytes the addressed device is ready to send.
\<close>

datatype wire_event =
    BeginTransmission uint8_t
  | WriteBytes "uint8_t list"
  | EndTransmission
  | RequestFrom uint8_t uint8_t
  | ReadByte

record TwoWire =
  events :: "wire_event list"
  rxBuffer :: "uint8_t list"

record write_reply =
  accepted :: nat
  status :: uint8_t

definition Wire_beginTransmission :: "TwoWire \<Rightarrow> uint8_t \<Rightarrow> TwoWire" where
  "Wire_beginTransmission w a = w\<lparr>events := events w @ [BeginTransmission a]\<rparr>"

definition Wire_write :: "TwoWire \<Rightarrow> uint8_t list \<Rightarrow> write_reply \<Rightarrow> nat \<times> TwoWire" where
  "Wire_write w bs r = (accepted r, w\<lparr>events := events w @ [WriteBytes bs]\<rparr>)"

definition Wire_endTransmission :: "TwoWire \<Rightarrow> write_reply \<Rightarrow> uint8_t \<times> TwoWire" where
  "Wire_endTransmission w r = (status r, w\<lparr>events := events w @ [EndTransmission]\<rparr>)"

text \<open>
  \<^verbatim>\<open>requestFrom(address, quantity)\<close> receives at most \<^verbatim>\<open>quantity\<close> bytes of what
  the device sends and returns how many it received.
\<close>

definition delivered :: "uint8_t \<Rightarrow> uint8_t list \<Rightarrow> uint8_t list" where
  "delivered quantity resp = take (unat quantity) resp"

definition Wire_requestFrom ::
  "TwoWire \<Rightarrow> uint8_t \<Rightarrow> uint8_t \<Rightarrow> uint8_t list \<Rightarrow> nat \<times> TwoWire" where
  "Wire_requestFrom w a quantity resp =
     (length (delivered quantity resp),
      w\<lparr>events := events w @ [RequestFrom a quantity], rxBuffer := delivered quantity resp\<rparr>)"

text \<open>
  \<^verbatim>\<open>read()\<close> returns the next received byte, or \<^verbatim>\<open>-1\<close> when there is none, which the
  assignment to a \<^verbatim>\<open>uint8_t\<close> turns into \<^verbatim>\<open>0xFF\<close>.
\<close>

definition Wire_read :: "TwoWire \<Rightarrow> uint8_t \<times> TwoWire" where
  "Wire_read w =
     (case rxBuffer w of
        [] \<Rightarrow> (0xFF, w\<lparr>events := events w @ [ReadByte]\<rparr>)
      | b # bs \<Rightarrow> (b, w\<lparr>events := events w @ [ReadByte], rxBuffer := bs\<rparr>))"

section \<open>The driver\<close>

text \<open>
  The fields of \<^verbatim>\<open>class SDP3x\<close>. \<open>buffer s i\<close> for \<open>i < 13\<close> is
  \<^verbatim>\<open>buffer[i]\<close> of \<^verbatim>\<open>uint8_t buffer[13]\<close>. The read loop advances a pointer into the
  array without a bound check; indices from 13 on stand for the bytes behind the
  array, so that a write through the pointer is a write at its index whatever the
  index is. The field \<^verbatim>\<open>comp\<close> is named \<open>comp_mode\<close>.
\<close>

record SDP3x =
  number :: Model
  addr :: uint8_t
  comp_mode :: TempCompensation
  buffer :: "nat \<Rightarrow> uint8_t"

subsection \<open>WriteCommand\<close>

definition WriteCommand ::
  "SDP3x \<Rightarrow> TwoWire \<Rightarrow> write_reply \<Rightarrow> uint8_t list \<Rightarrow> bool \<times> TwoWire" where
  "WriteCommand s w r cmd =
     (let w1 = Wire_beginTransmission w (addr s);
          (written, w2) = Wire_write w1 (take 2 cmd) r;
          (st, w3) = Wire_endTransmission w2 r
      in (st = 0 \<and> written = 2, w3))"

subsection \<open>ReadData\<close>

text \<open>
  The clearing loop \<^verbatim>\<open>for (next = &buffer[12]; next > buffer; next--) *next = 0\<close>;
  the argument is the index of \<^verbatim>\<open>next\<close>.
\<close>

fun clear_buffer :: "nat \<Rightarrow> (nat \<Rightarrow> uint8_t) \<Rightarrow> (nat \<Rightarrow> uint8_t)" where
  "clear_buffer 0 buf = buf"
| "clear_buffer (Suc n) buf = clear_buffer n (buf(Suc n := 0))"

text \<open>
  The read loop \<^verbatim>\<open>for (; read > 0; read--)\<close>. Its arguments are the counter
  \<^verbatim>\<open>read\<close>, the bus, the buffer, the index of \<^verbatim>\<open>next\<close>, \<^verbatim>\<open>crc\<close> and
  \<^verbatim>\<open>success\<close>.
\<close>

fun ReadData_loop ::
  "nat \<Rightarrow> TwoWire \<Rightarrow> (nat \<Rightarrow> uint8_t) \<Rightarrow> nat \<Rightarrow> uint8_t \<Rightarrow> bool
   \<Rightarrow> bool \<times> (nat \<Rightarrow> uint8_t) \<times> TwoWire" where
  "ReadData_loop 0 w buf nxt crc success = (success, buf, w)"
| "ReadData_loop (Suc n) w buf nxt crc success =
     (let (b, w') = Wire_read w;
          buf' = buf(nxt := b)
      in if Suc n mod 3 = 1
         then ReadData_loop n w' buf' nxt 0xFF (success \<and> crc = buf' nxt)
         else ReadData_loop n w' buf' (Suc nxt) (crc_update crc (buf' nxt)) success)"

definition ReadData ::
  "SDP3x \<Rightarrow> TwoWire \<Rightarrow> uint8_t list \<Rightarrow> uint8_t \<Rightarrow> bool \<times> SDP3x \<times> TwoWire" where
  "ReadData s w resp words =
     (let buf0 = clear_buffer 12 (buffer s);
          (rd, w1) = Wire_requestFrom w (addr s) (words * 3) resp;
          success = (if rd \<noteq> 3 * unat words then False else True);
          (ok, buf, w2) = ReadData_loop rd w1 buf0 0 0xFF success
      in (ok, s\<lparr>buffer := buf\<rparr>, w2))"

subsection \<open>Constructor and mode commands\<close>

text \<open>
  The constructor assigns \<^verbatim>\<open>addr\<close> and \<^verbatim>\<open>comp\<close> and nothing else. Its first
  argument is the storage the object is built in: \<^verbatim>\<open>number\<close> and \<^verbatim>\<open>buffer\<close> keep
  what the storage held (all zero for an object of static storage duration).
\<close>

definition SDP3x_new :: "SDP3x \<Rightarrow> uint8_t \<Rightarrow> TempCompensation \<Rightarrow> SDP3x" where
  "SDP3x_new storage a c = storage\<lparr>addr := a, comp_mode := c\<rparr>"

definition static_storage :: SDP3x where
  "static_storage = \<lparr>number = 0, addr = 0, comp_mode = MassFlow, buffer = (\<lambda>_. 0)\<rparr>"

definition StartContinuous ::
  "SDP3x \<Rightarrow> TwoWire \<Rightarrow> write_reply \<Rightarrow> bool \<Rightarrow> bool \<times> TwoWire" where
  "StartContinuous s w r averaging =
     (case comp_mode s of
        MassFlow \<Rightarrow>
          if averaging then WriteCommand s w r StartContMassFlowAvg
          else WriteCommand s w r StartContMassFlow
      | DiffPressure \<Rightarrow>
          if averaging then WriteCommand s w r StartContDiffPressureAvg
          else WriteCommand s w r StartContDiffPressure)"

definition StopContinuous :: "SDP3x \<Rightarrow> TwoWire \<Rightarrow> write_reply \<Rightarrow> bool \<times> TwoWire" where
  "StopContinuous s w r = WriteCommand s w r StopCont"

definition TriggerMeasurement ::
  "SDP3x \<Rightarrow> TwoWire \<Rightarrow> write_reply \<Rightarrow> bool \<Rightarrow> bool \<times> TwoWire" where
  "TriggerMeasurement s w r stretching =
     (case comp_mode s of
        MassFlow \<Rightarrow>
          if stretching then WriteCommand s w r TrigMassFlowStretch
          else WriteCommand s w r TrigMassFlow
      | DiffPressure \<Rightarrow>
          if stretching then WriteCommand s w r TrigDiffPressureStretch
          else WriteCommand s w r TrigDiffPressure)"

subsection \<open>GetMeasurement\<close>

text \<open>
  An output pointer is an option: \<open>None\<close> is \<^verbatim>\<open>NULL\<close>, \<open>Some v\<close> points to a slot
  that holds \<open>v\<close>; a function returns the slots as it leaves them.
  \<open>shift_in v b\<close> is \<^verbatim>\<open>*p <<= 8; *p |= b\<close> on a slot holding \<open>v\<close>, the byte
  converted to the slot's type.
\<close>

definition shift_in :: "'a::len word \<Rightarrow> uint8_t \<Rightarrow> 'a word" where
  "shift_in v b = push_bit 8 v OR ucast b"

definition GetMeasurement ::
  "SDP3x \<Rightarrow> TwoWire \<Rightarrow> uint8_t list
   \<Rightarrow> int16_t option \<Rightarrow> int16_t option \<Rightarrow> int16_t option
   \<Rightarrow> bool \<times> SDP3x \<times> TwoWire \<times> int16_t option \<times> int16_t option \<times> int16_t option" where
  "GetMeasurement s w resp pressure temp scale =
     (let words = (if scale \<noteq> None then 3 else if temp \<noteq> None then 2 else 1 :: uint8_t);
          (ok, s', w') = ReadData s w resp words
      in if \<not> ok then (False, s', w', pressure, temp, scale)
         else
           let scale' = (if words = 3
                         then map_option (\<lambda>v. shift_in (shift_in v (buffer s' 4)) (buffer s' 5)) scale
                         else scale);
               temp' = (if words = 3 \<or> words = 2
                        then map_option (\<lambda>v. shift_in (shift_in v (buffer s' 2)) (buffer s' 3)) temp
                        else temp);
               pressure' = (if words = 3 \<or> words = 2 \<or> words = 1
                            then map_option (\<lambda>v. shift_in (shift_in v (buffer s' 0)) (buffer s' 1)) pressure
                            else pressure)
           in (True, s', w', pressure', temp', scale'))"

subsection \<open>ReadProductID, Begin, Reset and the scale accessors\<close>

text \<open>
  The parsing loops \<^verbatim>\<open>for (words = 0; words < n; words++)\<close> shift the bytes
  \<^verbatim>\<open>buffer[words + off]\<close> into the slot one after the other.
  \<open>ReadProductID\<close> is \<^verbatim>\<open>SDP3x::readProductID\<close> of the latest revision: 2 words
  without a serial and 6 words with one, and a \<^verbatim>\<open>switch\<close> with the cases 6 and 2
  that falls through.
\<close>

definition parse_bytes :: "(nat \<Rightarrow> uint8_t) \<Rightarrow> nat \<Rightarrow> nat \<Rightarrow> 'a::len word \<Rightarrow> 'a word" where
  "parse_bytes buf off n v = foldl (\<lambda>acc i. shift_in acc (buf (i + off))) v [0..<n]"

definition ReadProductID ::
  "SDP3x \<Rightarrow> TwoWire \<Rightarrow> write_reply \<Rightarrow> write_reply \<Rightarrow> uint8_t list
   \<Rightarrow> uint32_t option \<Rightarrow> uint64_t option
   \<Rightarrow> bool \<times> SDP3x \<times> TwoWire \<times> uint32_t option \<times> uint64_t option" where
  "ReadProductID s w r1 r2 resp pid serial =
     (let words = (if serial \<noteq> None then 6 else 2 :: uint8_t);
          (ok1, w1) = WriteCommand s w r1 ReadInfo1
      in if \<not> ok1 then (False, s, w1, pid, serial)
         else
           let (ok2, w2) = WriteCommand s w1 r2 ReadInfo2
           in if \<not> ok2 then (False, s, w2, pid, serial)
              else
                let (ok3, s3, w3) = ReadData s w2 resp words
                in if \<not> ok3 then (False, s3, w3, pid, serial)
                   else
                     let serial' = (if words = 6
                                    then map_option (parse_bytes (buffer s3) 4 8) serial
                                    else serial);
                         pid' = (if words = 6 \<or> words = 2
                                 then map_option (parse_bytes (buffer s3) 0 4) pid
                                 else pid)
                     in (True, s3, w3, pid', serial'))"

text \<open>
  \<^verbatim>\<open>Begin\<close> passes the address of its uninitialised local \<^verbatim>\<open>modelNumber\<close>, whose
  content before the call is the argument \<open>modelNumber0\<close>.
\<close>

definition Begin ::
  "SDP3x \<Rightarrow> TwoWire \<Rightarrow> write_reply \<Rightarrow> write_reply \<Rightarrow> uint8_t list \<Rightarrow> uint32_t
   \<Rightarrow> bool \<times> SDP3x \<times> TwoWire" where
  "Begin s w r1 r2 resp modelNumber0 =
     (let (ok, s', w', pid, serial) = ReadProductID s w r1 r2 resp (Some modelNumber0) None;
          modelNumber = (case pid of Some v \<Rightarrow> v | None \<Rightarrow> modelNumber0)
      in if \<not> ok then (False, s', w')
         else if modelNumber = SDP31_PID then (True, s'\<lparr>number := SDP31\<rparr>, w')
         else if modelNumber = SDP32_PID then (True, s'\<lparr>number := SDP32\<rparr>, w')
         else (False, s', w'))"

text \<open>
  \<^verbatim>\<open>Reset\<close> opens the transmission to \<^verbatim>\<open>SoftReset[0]\<close> and writes the single byte
  \<^verbatim>\<open>SoftReset[1]\<close>.
\<close>

definition Reset :: "SDP3x \<Rightarrow> TwoWire \<Rightarrow> write_reply \<Rightarrow> bool \<times> TwoWire" where
  "Reset s w r =
     (let w1 = Wire_beginTransmission w (SoftReset ! 0);
          (written, w2) = Wire_write w1 [SoftReset ! 1] r;
          (st, w3) = Wire_endTransmission w2 r
      in if st \<noteq> 0 then (False, w3) else (written = 1, w3))"

definition GetPressureScale :: "SDP3x \<Rightarrow> uint8_t" where
  "GetPressureScale s =
     (if number s = SDP31 then SDP31_DiffScale
      else if number s = SDP32 then SDP32_DiffScale
      else 1)"

definition GetTemperatureScale :: "SDP3x \<Rightarrow> uint8_t" where
  "GetTemperatureScale s = SDP3X_TempScale"

section \<open>Auxiliary definitions\<close>

text \<open>
  \<open>table_from x cs\<close>: the list \<open>cs\<close> holds the bit-by-bit CRC step of the bytes
  \<open>x\<close>, \<open>x + 1\<close>, ... in this order. \<open>words_ok rx\<close>: in the byte sequence \<open>rx\<close>,
  cut into triples, every third byte is the CRC the read loop computes for the two
  bytes before it.
\<close>

fun table_from :: "uint8_t \<Rightarrow> uint8_t list \<Rightarrow> bool" where
  "table_from x [] = True"
| "table_from x (c # cs) = (crc8_bits 8 x = c \<and> table_from (x + 1) cs)"

fun words_ok :: "uint8_t list \<Rightarrow> bool" where
  "words_ok (b0 # b1 # c # rest) = (crc_word b0 b1 = c \<and> words_ok rest)"
| "words_ok rest = True"

text \<open>
  A bus on which nothing has happened yet, and the sensor object of the README's
  examples, \<^verbatim>\<open>SDP3x sensor(Address1, MassFlow)\<close> at file scope.
\<close>

definition idle_bus :: TwoWire where
  "idle_bus = \<lparr>events = [], rxBuffer = []\<rparr>"

definition sensor :: SDP3x where
  "sensor = SDP3x_new static_storage 0x21 MassFlow"

text \<open>The answer of a bus that accepts both bytes of a command and acknowledges.\<close>

definition ack :: write_reply where
  "ack = \<lparr>accepted = 2, status = 0\<rparr>"

section \<open>The CRC table against the bit-by-bit CRC-8\<close>

lemma crc8_bits_8:
  "crc8_bits 8 c =
     crc8_shift (crc8_shift (crc8_shift (crc8_shift
       (crc8_shift (crc8_shift (crc8_shift (crc8_shift c)))))))"
  by (simp add: eval_nat_numeral)

lemma table_from_CRC_LUT: "table_from 0 CRC_LUT"
  by (simp add: crc8_bits_8 crc8_shift_def CRC_LUT_def)

lemma length_CRC_LUT: "length CRC_LUT = 256"
  by (simp add: CRC_LUT_def)

lemma table_from_nth:
  "table_from x cs \<Longrightarrow> n < length cs \<Longrightarrow> cs ! n = crc8_bits 8 (x + of_nat n)"
proof (induction cs arbitrary: x n)
  case Nil
  then show ?case by simp
next
  case (Cons c cs)
  show ?case
  proof (cases n)
    case 0
    with Cons.prems show ?thesis by simp
  next
    case (Suc m)
    with Cons.prems have "cs ! m = crc8_bits 8 (x + 1 + of_nat m)"
      using Cons.IH [of "x + 1" m] by simp
    with Suc show ?thesis by (simp add: add.assoc)
  qed
qed

lemma CRC_LUT_bitwise: "CRC_LUT ! unat x = crc8_bits 8 x"
proof -
  have "unat x < length CRC_LUT"
    using unsigned_less [of x, where ?'a = nat] by (simp add: length_CRC_LUT)
  then have "CRC_LUT ! unat x = crc8_bits 8 (0 + of_nat (unat x))"
    by (rule table_from_nth [OF table_from_CRC_LUT])
  then show ?thesis
    by simp
qed

text \<open>
  Claim C3. For every pair of payload bytes, the CRC the read loop computes for a
  word with the table (start at \<^verbatim>\<open>0xFF\<close>, then \<^verbatim>\<open>crc = CRC_LUT[crc ^ b]\<close> for the
  first and the second byte) is the bit-by-bit CRC-8 with polynomial \<^verbatim>\<open>0x31\<close>,
  initial value \<^verbatim>\<open>0xFF\<close>, no reflection and no final XOR of the two bytes.
\<close>

theorem crc_word_bitwise: "crc_word b0 b1 = crc8_bitwise [b0, b1]"
  by (simp add: crc_word_def crc_update_def crc8_bitwise_def CRC_LUT_bitwise)

section \<open>ReadData\<close>

lemma clear_buffer_at: "clear_buffer n buf i = (if 1 \<le> i \<and> i \<le> n then 0 else buf i)"
  by (induction n arbitrary: buf) auto

lemma ReadData_loop_failed: "fst (ReadData_loop n w buf nxt crc False) = False"
  by (induction n arbitrary: w buf nxt crc) (simp_all add: Let_def split: prod.splits)

lemma Wire_read_Cons:
  "rxBuffer w = b # bs \<Longrightarrow>
   Wire_read w = (b, w\<lparr>events := events w @ [ReadByte], rxBuffer := bs\<rparr>)"
  by (simp add: Wire_read_def)

lemma ReadData_loop_words:
  "rxBuffer w = rx \<Longrightarrow> length rx = 3 * k \<Longrightarrow>
   fst (ReadData_loop (3 * k) w buf nxt 0xFF ok) = (ok \<and> words_ok rx)"
proof (induction k arbitrary: w rx buf nxt ok)
  case 0
  then show ?case by simp
next
  case (Suc k)
  from Suc.prems obtain b0 b1 c rest where rx: "rx = b0 # b1 # c # rest"
    by (cases rx; cases "tl rx"; cases "tl (tl rx)") auto
  have three: "3 * Suc k = Suc (Suc (Suc (3 * k)))"
    by simp
  have m: "Suc (Suc (Suc (3 * k))) mod 3 = 0" "Suc (Suc (3 * k)) mod 3 = 2" "Suc (3 * k) mod 3 = 1"
    by presburger+
  from Suc.prems rx have len: "length rest = 3 * k"
    by simp
  show ?case
    unfolding three
    using Suc.prems(1) rx
    by (simp add: Wire_read_Cons Let_def m Suc.IH [OF _ len] crc_word_def conj_ac)
qed

lemma words_ok_nth:
  "length rx = 3 * k \<Longrightarrow>
   words_ok rx \<longleftrightarrow> (\<forall>i<k. crc_word (rx ! (3 * i)) (rx ! (3 * i + 1)) = rx ! (3 * i + 2))"
proof (induction k arbitrary: rx)
  case 0
  then show ?case by simp
next
  case (Suc k)
  from Suc.prems obtain b0 b1 c rest where rx: "rx = b0 # b1 # c # rest"
    by (cases rx; cases "tl rx"; cases "tl (tl rx)") auto
  with Suc.prems have len: "length rest = 3 * k"
    by simp
  have "(\<forall>i<Suc k. crc_word (rx ! (3 * i)) (rx ! (3 * i + 1)) = rx ! (3 * i + 2)) \<longleftrightarrow>
        crc_word b0 b1 = c \<and>
        (\<forall>i<k. crc_word (rest ! (3 * i)) (rest ! (3 * i + 1)) = rest ! (3 * i + 2))"
    by (simp add: rx All_less_Suc2)
  with Suc.IH [OF len] show ?case
    by (simp add: rx)
qed

lemma ReadData_loop_drains:
  "rxBuffer w = rx \<Longrightarrow> length rx = n \<Longrightarrow>
   rxBuffer (snd (snd (ReadData_loop n w buf nxt crc ok))) = [] \<and>
   events (snd (snd (ReadData_loop n w buf nxt crc ok))) = events w @ replicate n ReadByte"
proof (induction n arbitrary: w rx buf nxt crc ok)
  case 0
  then show ?case by simp
next
  case (Suc n)
  from Suc.prems obtain b rest where rx: "rx = b # rest" and len: "length rest = n"
    by (cases rx) auto
  show ?case
    using Suc.prems(1) rx
    by (simp add: Wire_read_Cons Let_def Suc.IH [OF _ len] replicate_append_same)
qed


lemma ReadData_unfold:
  "ReadData s w resp words =
     (let r = ReadData_loop (length (delivered (words * 3) resp))
               (w\<lparr>events := events w @ [RequestFrom (addr s) (words * 3)],
                  rxBuffer := delivered (words * 3) resp\<rparr>)
               (clear_buffer 12 (buffer s)) 0 0xFF
               (length (delivered (words * 3) resp) = 3 * unat words)
      in (fst r, s\<lparr>buffer := fst (snd r)\<rparr>, snd (snd r)))"
  by (simp add: ReadData_def Wire_requestFrom_def Let_def case_prod_beta)

lemma ReadData_ok_iff:
  "fst (ReadData s w resp words) \<longleftrightarrow>
     length (delivered (words * 3) resp) = 3 * unat words \<and>
     words_ok (delivered (words * 3) resp)"
proof (cases "length (delivered (words * 3) resp) = 3 * unat words")
  case True
  have "fst (ReadData_loop (3 * unat words)
          (w\<lparr>events := events w @ [RequestFrom (addr s) (words * 3)],
             rxBuffer := delivered (words * 3) resp\<rparr>)
          (clear_buffer 12 (buffer s)) 0 0xFF True) =
        (True \<and> words_ok (delivered (words * 3) resp))"
    by (rule ReadData_loop_words) (simp_all add: True)
  with True show ?thesis
    by (simp add: ReadData_unfold Let_def)
next
  case False
  then show ?thesis
    using ReadData_loop_failed
      [of "length (delivered (words * 3) resp)"
          "w\<lparr>events := events w @ [RequestFrom (addr s) (words * 3)],
             rxBuffer := delivered (words * 3) resp\<rparr>"
          "clear_buffer 12 (buffer s)" 0 "0xFF"]
    by (simp add: ReadData_unfold Let_def)
qed

text \<open>
  Claim C1. \<^verbatim>\<open>ReadData(n)\<close> returns success if and only if the bus delivered exactly
  \<open>3 * n\<close> bytes and, for each of the \<open>n\<close> words, the CRC computed over the two
  payload bytes of the word equals the CRC byte received after them. The statement
  holds for every word count a \<^verbatim>\<open>uint8_t\<close> can hold; that the writes of the loop
  stay inside the array for the word counts up to 6 is shown further below.
\<close>

theorem ReadData_success_iff:
  "fst (ReadData s w resp words) \<longleftrightarrow>
     length (delivered (words * 3) resp) = 3 * unat words \<and>
     (\<forall>i<unat words.
        crc_word (delivered (words * 3) resp ! (3 * i)) (delivered (words * 3) resp ! (3 * i + 1))
          = delivered (words * 3) resp ! (3 * i + 2))"
  using words_ok_nth [of "delivered (words * 3) resp" "unat words"]
  by (auto simp: ReadData_ok_iff)

theorem ReadData_success_iff_witness:
  "fst (ReadData sensor idle_bus [0xBE, 0xEF, 0x92] 1)"
  using ReadData_success_iff [of sensor idle_bus "[0xBE, 0xEF, 0x92]" 1]
  by (simp add: delivered_def crc_word_def crc_update_def CRC_LUT_def)

text \<open>
  Claim C2. If the bus delivers \<open>k < 3 * n\<close> bytes, \<^verbatim>\<open>ReadData(n)\<close> returns failure
  and has read all \<open>k\<close> bytes from the bus: after the request there are \<open>k\<close> calls
  of \<^verbatim>\<open>Wire.read\<close> and no received byte is left unread.
\<close>

theorem ReadData_short_read:
  assumes "length (delivered (words * 3) resp) < 3 * unat words"
  shows "\<not> fst (ReadData s w resp words) \<and>
         rxBuffer (snd (snd (ReadData s w resp words))) = [] \<and>
         events (snd (snd (ReadData s w resp words))) =
           events w @ RequestFrom (addr s) (words * 3)
             # replicate (length (delivered (words * 3) resp)) ReadByte"
proof -
  from assms have "\<not> fst (ReadData s w resp words)"
    by (simp add: ReadData_ok_iff)
  moreover
  have "rxBuffer (snd (snd (ReadData s w resp words))) = [] \<and>
        events (snd (snd (ReadData s w resp words))) =
          events w @ RequestFrom (addr s) (words * 3)
            # replicate (length (delivered (words * 3) resp)) ReadByte"
    using ReadData_loop_drains
      [of "w\<lparr>events := events w @ [RequestFrom (addr s) (words * 3)],
             rxBuffer := delivered (words * 3) resp\<rparr>"
          "delivered (words * 3) resp" "length (delivered (words * 3) resp)"
          "clear_buffer 12 (buffer s)" 0 "0xFF"
          "length (delivered (words * 3) resp) = 3 * unat words"]
    by (simp add: ReadData_unfold Let_def)
  ultimately show ?thesis
    by simp
qed

theorem ReadData_short_read_witness:
  "length (delivered (2 * 3) [0xBE, 0xEF, 0x92, 0x00]) < 3 * unat (2 :: uint8_t) \<and>
   \<not> fst (ReadData sensor idle_bus [0xBE, 0xEF, 0x92, 0x00] 2) \<and>
   rxBuffer (snd (snd (ReadData sensor idle_bus [0xBE, 0xEF, 0x92, 0x00] 2))) = [] \<and>
   events (snd (snd (ReadData sensor idle_bus [0xBE, 0xEF, 0x92, 0x00] 2))) =
     [RequestFrom 0x21 6, ReadByte, ReadByte, ReadByte, ReadByte]"
proof -
  have d: "delivered 6 [0xBE, 0xEF, 0x92, 0x00] = [0xBE, 0xEF, 0x92, 0x00]"
    by (simp add: delivered_def)
  have h: "length (delivered (2 * 3) [0xBE, 0xEF, 0x92, 0x00]) < 3 * unat (2 :: uint8_t)"
    by (simp add: d)
  show ?thesis
    using h ReadData_short_read [OF h, of sensor idle_bus]
    by (simp add: d sensor_def SDP3x_new_def idle_bus_def)
qed

text \<open>
  Claim C10. The clearing loop at the start of \<^verbatim>\<open>ReadData\<close> sets the buffer bytes
  at the indices 1 to 12 to zero and leaves byte 0 as it is; when the bus then
  delivers no byte, the buffer after the call is the cleared one, and byte 0 still
  holds the value it had before the call.
\<close>

theorem clear_buffer_keeps_byte_0:
  "clear_buffer 12 buf 0 = buf 0 \<and>
   (\<forall>i. 1 \<le> i \<and> i \<le> 12 \<longrightarrow> clear_buffer 12 buf i = 0) \<and>
   (delivered (words * 3) resp = [] \<longrightarrow>
      buffer (fst (snd (ReadData s w resp words))) = clear_buffer 12 (buffer s) \<and>
      buffer (fst (snd (ReadData s w resp words))) 0 = buffer s 0)"
  by (simp add: clear_buffer_at ReadData_unfold Let_def)

theorem clear_buffer_keeps_byte_0_witness:
  "delivered (1 * 3) [] = [] \<and>
   buffer (fst (snd (ReadData sensor idle_bus [0xBE, 0xEF, 0x92] 1))) 0 = 0xBE \<and>
   buffer (fst (snd (ReadData (fst (snd (ReadData sensor idle_bus [0xBE, 0xEF, 0x92] 1)))
                       idle_bus [] 1))) 0 = 0xBE \<and>
   buffer (fst (snd (ReadData (fst (snd (ReadData sensor idle_bus [0xBE, 0xEF, 0x92] 1)))
                       idle_bus [] 1))) 1 = 0"
proof -
  have h: "delivered (1 * 3) [] = []"
    by (simp add: delivered_def)
  have b0: "buffer (fst (snd (ReadData sensor idle_bus [0xBE, 0xEF, 0x92] 1))) 0 = 0xBE"
    by (simp add: ReadData_unfold delivered_def idle_bus_def Wire_read_def Let_def)
  show ?thesis
    using h b0
      clear_buffer_keeps_byte_0
        [of "buffer (fst (snd (ReadData sensor idle_bus [0xBE, 0xEF, 0x92] 1)))" 1 "[]"
            "fst (snd (ReadData sensor idle_bus [0xBE, 0xEF, 0x92] 1))" idle_bus]
    by simp
qed

subsection \<open>Where the read loop writes\<close>

text \<open>
  Reading \<open>n\<close> bytes writes at the indices from \<open>nxt\<close> to \<open>nxt + 2 * n div 3\<close>
  only. For the word counts the driver uses (1, 2, 3 and 6, and any count up to 6)
  no write leaves the 13 bytes of the array.
\<close>

lemma ReadData_loop_bounds:
  "i < nxt \<or> nxt + (2 * n) div 3 < i \<Longrightarrow>
   fst (snd (ReadData_loop n w buf nxt crc ok)) i = buf i"
proof (induction n arbitrary: w buf nxt crc ok)
  case 0
  then show ?case by simp
next
  case (Suc n)
  from Suc.prems have ne: "i \<noteq> nxt"
    by auto
  show ?case
  proof (cases "Suc n mod 3 = 1")
    case True
    from Suc.prems have "i < nxt \<or> nxt + (2 * n) div 3 < i"
      by auto
    with True ne show ?thesis
      by (simp add: Let_def case_prod_beta Suc.IH)
  next
    case False
    then have "Suc ((2 * n) div 3) \<le> (2 * Suc n) div 3"
      by presburger
    with Suc.prems have "i < Suc nxt \<or> Suc nxt + (2 * n) div 3 < i"
      by auto
    with False ne show ?thesis
      by (simp add: Let_def case_prod_beta Suc.IH)
  qed
qed

lemma ReadData_in_bounds:
  assumes "unat words \<le> 6" and "13 \<le> i"
  shows "buffer (fst (snd (ReadData s w resp words))) i = buffer s i"
proof -
  have "unat (words * 3) \<le> unat words * 3"
    by (simp add: unat_word_ariths)
  with assms(1) have "length (delivered (words * 3) resp) \<le> 18"
    by (simp add: delivered_def)
  then have "(2 * length (delivered (words * 3) resp)) div 3 < i"
    using assms(2) by auto
  then have "fst (snd (ReadData_loop (length (delivered (words * 3) resp))
               (w\<lparr>events := events w @ [RequestFrom (addr s) (words * 3)],
                  rxBuffer := delivered (words * 3) resp\<rparr>)
               (clear_buffer 12 (buffer s)) 0 0xFF
               (length (delivered (words * 3) resp) = 3 * unat words))) i
             = clear_buffer 12 (buffer s) i"
    by (intro ReadData_loop_bounds) simp
  with assms(2) show ?thesis
    by (simp add: ReadData_unfold Let_def clear_buffer_at)
qed

text \<open>
  After a read of whole words the two payload bytes of word \<open>i\<close> are at the buffer
  indices \<open>2 * i\<close> and \<open>2 * i + 1\<close>, counted from where the loop started.
\<close>

lemma ReadData_loop_payload:
  "rxBuffer w = rx \<Longrightarrow> length rx = 3 * k \<Longrightarrow> i < k \<Longrightarrow>
   fst (snd (ReadData_loop (3 * k) w buf nxt crc ok)) (nxt + 2 * i) = rx ! (3 * i) \<and>
   fst (snd (ReadData_loop (3 * k) w buf nxt crc ok)) (nxt + 2 * i + 1) = rx ! (3 * i + 1)"
proof (induction k arbitrary: w rx buf nxt crc ok i)
  case 0
  then show ?case by simp
next
  case (Suc k)
  from Suc.prems obtain b0 b1 c rest where rx: "rx = b0 # b1 # c # rest"
    by (cases rx; cases "tl rx"; cases "tl (tl rx)") auto
  with Suc.prems have len: "length rest = 3 * k"
    by simp
  have three: "3 * Suc k = Suc (Suc (Suc (3 * k)))"
    by simp
  have m: "Suc (Suc (Suc (3 * k))) mod 3 = 0" "Suc (Suc (3 * k)) mod 3 = 2" "Suc (3 * k) mod 3 = 1"
    by presburger+
  define w3 where "w3 = w\<lparr>events := events w @ [ReadByte, ReadByte, ReadByte], rxBuffer := rest\<rparr>"
  define buf3 where "buf3 = buf(nxt := b0, Suc nxt := b1, Suc (Suc nxt) := c)"
  have step: "ReadData_loop (3 * Suc k) w buf nxt crc ok =
              ReadData_loop (3 * k) w3 buf3 (Suc (Suc nxt)) 0xFF
                (ok \<and> crc_update (crc_update crc b0) b1 = c)"
    unfolding three using Suc.prems(1) rx
    by (simp add: Wire_read_Cons Let_def m w3_def buf3_def)
  have rest: "rxBuffer w3 = rest"
    by (simp add: w3_def)
  show ?case
  proof (cases i)
    case 0
    have "fst (snd (ReadData_loop (3 * k) w3 buf3 (Suc (Suc nxt)) 0xFF
                 (ok \<and> crc_update (crc_update crc b0) b1 = c))) nxt = buf3 nxt"
      by (rule ReadData_loop_bounds) simp
    moreover
    have "fst (snd (ReadData_loop (3 * k) w3 buf3 (Suc (Suc nxt)) 0xFF
                 (ok \<and> crc_update (crc_update crc b0) b1 = c))) (Suc nxt) = buf3 (Suc nxt)"
      by (rule ReadData_loop_bounds) simp
    ultimately show ?thesis
      using 0 unfolding step by (simp add: rx buf3_def)
  next
    case (Suc j)
    with Suc.prems have "j < k"
      by simp
    from Suc.IH [OF rest len this, of buf3 "Suc (Suc nxt)" "0xFF"
        "ok \<and> crc_update (crc_update crc b0) b1 = c"]
    show ?thesis
      using Suc unfolding step by (simp add: rx)
  qed
qed

lemma ReadData_payload:
  assumes "fst (ReadData s w resp words)" and "i < unat words"
  shows "buffer (fst (snd (ReadData s w resp words))) (2 * i) = delivered (words * 3) resp ! (3 * i) \<and>
         buffer (fst (snd (ReadData s w resp words))) (2 * i + 1)
           = delivered (words * 3) resp ! (3 * i + 1)"
proof -
  from assms(1) have len: "length (delivered (words * 3) resp) = 3 * unat words"
    by (simp add: ReadData_ok_iff)
  have "rxBuffer (w\<lparr>events := events w @ [RequestFrom (addr s) (words * 3)],
                    rxBuffer := delivered (words * 3) resp\<rparr>) = delivered (words * 3) resp"
    by simp
  from ReadData_loop_payload [OF this len assms(2), of "clear_buffer 12 (buffer s)" 0 "0xFF" True]
  show ?thesis
    by (simp add: ReadData_unfold Let_def len)
qed

section \<open>WriteCommand, the mode commands and Reset\<close>

lemma WriteCommand_eq:
  "WriteCommand s w r cmd =
     (status r = 0 \<and> accepted r = 2,
      w\<lparr>events := events w @ [BeginTransmission (addr s), WriteBytes (take 2 cmd), EndTransmission]\<rparr>)"
  by (simp add: WriteCommand_def Wire_beginTransmission_def Wire_write_def
      Wire_endTransmission_def)

text \<open>
  Claim C5. \<^verbatim>\<open>WriteCommand\<close> returns success if and only if the bus accepted exactly
  2 bytes and \<^verbatim>\<open>endTransmission\<close> returned status 0; a nonzero status makes it fail
  even when 2 bytes were written. The call is one transaction to the configured
  address.
\<close>

theorem WriteCommand_success_iff:
  "(fst (WriteCommand s w r cmd) \<longleftrightarrow> accepted r = 2 \<and> status r = 0) \<and>
   (accepted r = 2 \<and> status r \<noteq> 0 \<longrightarrow> \<not> fst (WriteCommand s w r cmd)) \<and>
   snd (WriteCommand s w r cmd) =
     w\<lparr>events := events w @
        [BeginTransmission (addr s), WriteBytes (take 2 cmd), EndTransmission]\<rparr>"
  by (auto simp: WriteCommand_eq)

theorem WriteCommand_success_iff_witness:
  "accepted \<lparr>accepted = 2, status = 2\<rparr> = 2 \<and> status \<lparr>accepted = 2, status = 2\<rparr> \<noteq> 0 \<and>
   \<not> fst (WriteCommand sensor idle_bus \<lparr>accepted = 2, status = 2\<rparr> [0x36, 0x03])"
  using WriteCommand_success_iff [of sensor idle_bus "\<lparr>accepted = 2, status = 2\<rparr>" "[0x36, 0x03]"]
  by simp

text \<open>
  Claim C4. For both compensation modes and both values of the flag,
  \<^verbatim>\<open>StartContinuous(averaging)\<close> writes the two bytes of the wire table for the mode
  and the flag (\<^verbatim>\<open>36 03\<close>, \<^verbatim>\<open>36 08\<close>, \<^verbatim>\<open>36 15\<close>, \<^verbatim>\<open>36 1E\<close>), and
  \<^verbatim>\<open>TriggerMeasurement(stretching)\<close> writes \<^verbatim>\<open>36 24\<close>, \<^verbatim>\<open>37 26\<close>, \<^verbatim>\<open>36 2F\<close>,
  \<^verbatim>\<open>37 2D\<close>; each is one transaction to the configured address and succeeds as
  \<^verbatim>\<open>WriteCommand\<close> does.
\<close>

theorem mode_commands:
  "StartContinuous (s\<lparr>comp_mode := MassFlow\<rparr>) w r True =
     (status r = 0 \<and> accepted r = 2,
      w\<lparr>events := events w @
         [BeginTransmission (addr s), WriteBytes [0x36, 0x03], EndTransmission]\<rparr>) \<and>
   StartContinuous (s\<lparr>comp_mode := MassFlow\<rparr>) w r False =
     (status r = 0 \<and> accepted r = 2,
      w\<lparr>events := events w @
         [BeginTransmission (addr s), WriteBytes [0x36, 0x08], EndTransmission]\<rparr>) \<and>
   StartContinuous (s\<lparr>comp_mode := DiffPressure\<rparr>) w r True =
     (status r = 0 \<and> accepted r = 2,
      w\<lparr>events := events w @
         [BeginTransmission (addr s), WriteBytes [0x36, 0x15], EndTransmission]\<rparr>) \<and>
   StartContinuous (s\<lparr>comp_mode := DiffPressure\<rparr>) w r False =
     (status r = 0 \<and> accepted r = 2,
      w\<lparr>events := events w @
         [BeginTransmission (addr s), WriteBytes [0x36, 0x1E], EndTransmission]\<rparr>) \<and>
   TriggerMeasurement (s\<lparr>comp_mode := MassFlow\<rparr>) w r False =
     (status r = 0 \<and> accepted r = 2,
      w\<lparr>events := events w @
         [BeginTransmission (addr s), WriteBytes [0x36, 0x24], EndTransmission]\<rparr>) \<and>
   TriggerMeasurement (s\<lparr>comp_mode := MassFlow\<rparr>) w r True =
     (status r = 0 \<and> accepted r = 2,
      w\<lparr>events := events w @
         [BeginTransmission (addr s), WriteBytes [0x37, 0x26], EndTransmission]\<rparr>) \<and>
   TriggerMeasurement (s\<lparr>comp_mode := DiffPressure\<rparr>) w r False =
     (status r = 0 \<and> accepted r = 2,
      w\<lparr>events := events w @
         [BeginTransmission (addr s), WriteBytes [0x36, 0x2F], EndTransmission]\<rparr>) \<and>
   TriggerMeasurement (s\<lparr>comp_mode := DiffPressure\<rparr>) w r True =
     (status r = 0 \<and> accepted r = 2,
      w\<lparr>events := events w @
         [BeginTransmission (addr s), WriteBytes [0x37, 0x2D], EndTransmission]\<rparr>)"
  by (simp add: StartContinuous_def TriggerMeasurement_def WriteCommand_eq
      StartContMassFlowAvg_def StartContMassFlow_def StartContDiffPressureAvg_def
      StartContDiffPressure_def TrigMassFlow_def TrigMassFlowStretch_def
      TrigDiffPressure_def TrigDiffPressureStretch_def)

text \<open>
  Claim C9. \<^verbatim>\<open>Reset\<close> puts the soft-reset command \<^verbatim>\<open>00 06\<close> on the bus as a
  transmission to address \<^verbatim>\<open>0x00\<close>, whatever the configured address of the driver is,
  with the single data byte \<^verbatim>\<open>0x06\<close>, and returns success if and only if that
  byte was accepted and \<^verbatim>\<open>endTransmission\<close> returned status 0.
\<close>

theorem Reset_general_call:
  "Reset s w r =
     (status r = 0 \<and> accepted r = 1,
      w\<lparr>events := events w @ [BeginTransmission 0x00, WriteBytes [0x06], EndTransmission]\<rparr>)"
  by (simp add: Reset_def SoftReset_def Wire_beginTransmission_def Wire_write_def
      Wire_endTransmission_def Let_def)

section \<open>Unpacking big-endian values\<close>

lemma shift_in_add: "shift_in v b = push_bit 8 v + ucast b"
proof -
  have "push_bit 8 v + ucast b = push_bit 8 v OR ucast b"
    by (rule disjunctive_add) (auto simp: bit_simps dest: bit_imp_le_length)
  then show ?thesis
    by (simp add: shift_in_def)
qed

lemma unat_uint8_less: "unat (b :: uint8_t) < 256"
  using unsigned_less [of b, where ?'a = nat] by simp

lemma unat_shift_in:
  fixes v :: "'a::len word"
  assumes "8 \<le> LENGTH('a)"
  shows "unat (shift_in v b) = (unat v * 256 + unat b) mod 2 ^ LENGTH('a)"
proof -
  have "(2::nat) ^ 8 \<le> 2 ^ LENGTH('a)"
    using assms by (intro power_increasing) simp_all
  with unat_uint8_less [of b] have "unat b < 2 ^ LENGTH('a)"
    by simp
  then have u: "unat (ucast b :: 'a word) = unat b"
    by (simp add: unsigned_ucast_eq take_bit_nat_eq_self_iff)
  have p: "unat (push_bit 8 v) = (unat v * 256) mod 2 ^ LENGTH('a)"
    by (simp only: unsigned_push_bit_eq) (simp add: push_bit_eq_mult take_bit_eq_mod)
  show ?thesis
    by (simp add: shift_in_add unat_word_ariths u p mod_simps)
qed

lemma step_mod:
  "((A mod M) * 256 + (b::nat)) mod M = (A * 256 + b) mod M"
  by (intro mod_add_cong mod_mult_left_eq refl)

lemma unat_foldl_shift_in:
  fixes v :: "'a::len word"
  assumes "8 \<le> LENGTH('a)"
  shows "unat (foldl (\<lambda>acc i. shift_in acc (f i)) v xs) =
         (unat v * 256 ^ length xs + foldl (\<lambda>a i. a * 256 + unat (f i)) 0 xs) mod 2 ^ LENGTH('a)"
proof (induction xs rule: rev_induct)
  case Nil
  show ?case
    using unsigned_less [of v, where ?'a = nat] by simp
next
  case (snoc x xs)
  let ?V = "unat v * 256 ^ length xs"
  let ?B = "foldl (\<lambda>a i. a * 256 + unat (f i)) 0 xs"
  have "foldl (\<lambda>acc i. shift_in acc (f i)) v (xs @ [x]) =
        shift_in (foldl (\<lambda>acc i. shift_in acc (f i)) v xs) (f x)"
    by simp
  then have "unat (foldl (\<lambda>acc i. shift_in acc (f i)) v (xs @ [x])) =
        ((?V + ?B) mod 2 ^ LENGTH('a) * 256 + unat (f x)) mod 2 ^ LENGTH('a)"
    by (simp only: unat_shift_in [OF assms] snoc.IH)
  also have "\<dots> = ((?V + ?B) * 256 + unat (f x)) mod 2 ^ LENGTH('a)"
    by (rule step_mod)
  also have "(?V + ?B) * 256 + unat (f x) =
             unat v * 256 ^ length (xs @ [x]) + foldl (\<lambda>a i. a * 256 + unat (f i)) 0 (xs @ [x])"
    by (simp add: algebra_simps)
  finally show ?case .
qed

lemma unat_parse_bytes_full:
  fixes v :: "'a::len word"
  assumes "LENGTH('a) = 8 * n" "0 < n"
  shows "unat (parse_bytes buf off n v) = foldl (\<lambda>a i. a * 256 + unat (buf (i + off))) 0 [0..<n]"
proof -
  let ?B = "foldl (\<lambda>a i. a * 256 + unat (buf (i + off))) 0"
  have bound: "?B xs < 256 ^ length xs" for xs
  proof (induction xs rule: rev_induct)
    case Nil
    show ?case by simp
  next
    case (snoc x xs)
    have "?B xs * 256 + unat (buf (x + off)) < (?B xs + 1) * 256"
      using unat_uint8_less [of "buf (x + off)"] by simp
    also have "\<dots> \<le> 256 ^ length xs * 256"
      using snoc.IH by (intro mult_right_mono) simp_all
    finally show ?case by simp
  qed
  have pow: "(256::nat) ^ n = 2 ^ LENGTH('a)"
    by (simp add: assms power_mult)
  have "8 \<le> LENGTH('a)"
    using assms by simp
  then have "unat (parse_bytes buf off n v) = (unat v * 256 ^ n + ?B [0..<n]) mod 2 ^ LENGTH('a)"
    using unat_foldl_shift_in [of "\<lambda>i. buf (i + off)" v "[0..<n]"]
    by (simp add: parse_bytes_def)
  also have "\<dots> = ?B [0..<n] mod 2 ^ LENGTH('a)"
    by (simp add: pow)
  also have "\<dots> = ?B [0..<n]"
    using bound [of "[0..<n]"] by (simp add: pow)
  finally show ?thesis .
qed


lemma unat_parse_pid:
  "unat (parse_bytes buf 0 4 (v :: uint32_t)) =
     unat (buf 0) * 2 ^ 24 + unat (buf 1) * 2 ^ 16 + unat (buf 2) * 2 ^ 8 + unat (buf 3)"
proof -
  have "[0..<4] = [0, 1, 2, 3]"
    by (simp add: upt_rec)
  then show ?thesis
    by (simp add: unat_parse_bytes_full [of 4])
qed

lemma unat_parse_serial:
  "unat (parse_bytes buf 4 8 (v :: uint64_t)) =
     unat (buf 4) * 2 ^ 56 + unat (buf 5) * 2 ^ 48 + unat (buf 6) * 2 ^ 40 + unat (buf 7) * 2 ^ 32
     + unat (buf 8) * 2 ^ 24 + unat (buf 9) * 2 ^ 16 + unat (buf 10) * 2 ^ 8 + unat (buf 11)"
proof -
  have "[0..<8] = [0, 1, 2, 3, 4, 5, 6, 7]"
    by (simp add: upt_rec)
  then show ?thesis
    by (simp add: unat_parse_bytes_full [of 8])
qed

lemma unat_be16:
  "unat (shift_in (shift_in (v :: int16_t) hi) lo) = unat hi * 2 ^ 8 + unat lo"
proof -
  have "shift_in (shift_in v hi) lo = parse_bytes (\<lambda>i. if i = 0 then hi else lo) 0 2 v"
    by (simp add: parse_bytes_def upt_rec)
  then show ?thesis
    by (simp add: unat_parse_bytes_full [of 2] upt_rec)
qed

lemma word_eq_of_nat: "unat w = n \<Longrightarrow> w = of_nat n"
  by auto

lemma be16: "shift_in (shift_in (v :: int16_t) hi) lo = of_nat (unat hi * 2 ^ 8 + unat lo)"
  by (rule word_eq_of_nat) (rule unat_be16)

lemma be32:
  "parse_bytes buf 0 4 (v :: uint32_t) =
     of_nat (unat (buf 0) * 2 ^ 24 + unat (buf 1) * 2 ^ 16 + unat (buf 2) * 2 ^ 8 + unat (buf 3))"
  by (rule word_eq_of_nat) (rule unat_parse_pid)

lemma be64:
  "parse_bytes buf 4 8 (v :: uint64_t) =
     of_nat (unat (buf 4) * 2 ^ 56 + unat (buf 5) * 2 ^ 48 + unat (buf 6) * 2 ^ 40
       + unat (buf 7) * 2 ^ 32 + unat (buf 8) * 2 ^ 24 + unat (buf 9) * 2 ^ 16
       + unat (buf 10) * 2 ^ 8 + unat (buf 11))"
  by (rule word_eq_of_nat) (rule unat_parse_serial)

section \<open>GetMeasurement\<close>

lemma ReadData_events:
  "events (snd (snd (ReadData s w resp words))) =
     events w @ RequestFrom (addr s) (words * 3)
       # replicate (length (delivered (words * 3) resp)) ReadByte"
  using ReadData_loop_drains
    [of "w\<lparr>events := events w @ [RequestFrom (addr s) (words * 3)],
           rxBuffer := delivered (words * 3) resp\<rparr>"
        "delivered (words * 3) resp" "length (delivered (words * 3) resp)"
        "clear_buffer 12 (buffer s)" 0 "0xFF"
        "length (delivered (words * 3) resp) = 3 * unat words"]
  by (simp add: ReadData_unfold Let_def)

lemma ReadData_fields:
  "number (fst (snd (ReadData s w resp words))) = number s"
  "addr (fst (snd (ReadData s w resp words))) = addr s"
  "comp_mode (fst (snd (ReadData s w resp words))) = comp_mode s"
  by (simp_all add: ReadData_unfold Let_def)

text \<open>
  Claim C6. For every combination of null and non-null output pointers,
  \<^verbatim>\<open>GetMeasurement\<close> calls \<^verbatim>\<open>ReadData\<close> for 3 words if scale is requested, for 2
  words if temperature is requested and scale is not, and for 1 word otherwise; the
  bus sees one request for three times as many bytes. When \<^verbatim>\<open>ReadData\<close> succeeds,
  each requested slot holds the 16-bit value whose high byte is the first and whose
  low byte is the second of the buffer bytes 0 and 1 (pressure), 2 and 3
  (temperature), 4 and 5 (scale); when it fails, the slots are left as they were.
\<close>

theorem GetMeasurement_reads_and_unpacks:
  "(let n = (if scale \<noteq> None then 3 else if temp \<noteq> None then 2 else 1);
        rd = ReadData s w resp n;
        s' = fst (snd rd)
    in GetMeasurement s w resp pressure temp scale =
         (if fst rd
          then (True, s', snd (snd rd),
                map_option (\<lambda>_. of_nat (unat (buffer s' 0) * 2 ^ 8 + unat (buffer s' 1))) pressure,
                map_option (\<lambda>_. of_nat (unat (buffer s' 2) * 2 ^ 8 + unat (buffer s' 3))) temp,
                map_option (\<lambda>_. of_nat (unat (buffer s' 4) * 2 ^ 8 + unat (buffer s' 5))) scale)
          else (False, s', snd (snd rd), pressure, temp, scale)) \<and>
       events (snd (snd rd)) =
         events w @ RequestFrom (addr s) (n * 3)
           # replicate (length (delivered (n * 3) resp)) ReadByte)"
  by (cases pressure; cases temp; cases scale)
     (simp_all add: GetMeasurement_def Let_def case_prod_beta be16 ReadData_events)

section \<open>ReadProductID and Begin\<close>

lemma ReadProductID_eq:
  "ReadProductID s w r1 r2 resp pid serial =
     (let w1 = w\<lparr>events := events w @
                 [BeginTransmission (addr s), WriteBytes [0x36, 0x7C], EndTransmission]\<rparr>;
          w2 = w1\<lparr>events := events w1 @
                 [BeginTransmission (addr s), WriteBytes [0xE1, 0x02], EndTransmission]\<rparr>;
          rd = ReadData s w2 resp (if serial \<noteq> None then 6 else 2);
          s3 = fst (snd rd)
      in if \<not> (status r1 = 0 \<and> accepted r1 = 2) then (False, s, w1, pid, serial)
         else if \<not> (status r2 = 0 \<and> accepted r2 = 2) then (False, s, w2, pid, serial)
         else if \<not> fst rd then (False, s3, snd (snd rd), pid, serial)
         else (True, s3, snd (snd rd),
               map_option (\<lambda>_. of_nat (unat (buffer s3 0) * 2 ^ 24 + unat (buffer s3 1) * 2 ^ 16
                                + unat (buffer s3 2) * 2 ^ 8 + unat (buffer s3 3))) pid,
               map_option (\<lambda>_. of_nat (unat (buffer s3 4) * 2 ^ 56 + unat (buffer s3 5) * 2 ^ 48
                                + unat (buffer s3 6) * 2 ^ 40 + unat (buffer s3 7) * 2 ^ 32
                                + unat (buffer s3 8) * 2 ^ 24 + unat (buffer s3 9) * 2 ^ 16
                                + unat (buffer s3 10) * 2 ^ 8 + unat (buffer s3 11))) serial))"
  by (cases pid; cases serial)
     (simp_all add: ReadProductID_def WriteCommand_eq ReadInfo1_def ReadInfo2_def Let_def
        case_prod_beta be32 be64)

lemma crc_word_examples:
  "crc_word 0x03 0x01 = 0x9D" "crc_word 0x02 0x88 = 0x9B" "crc_word 0x00 0x00 = 0x81"
  "crc_word 0x01 0x88 = 0xB6" "crc_word 0x12 0x34 = 0x37" "crc_word 0x56 0x78 = 0x7D"
  "crc_word 0x9A 0xBC = 0xE0" "crc_word 0xDE 0xF0 = 0xAA"
  by (simp_all add: crc_word_def crc_update_def CRC_LUT_def)

lemmas read_simps = ReadData_unfold delivered_def Wire_read_def Let_def

lemma read_SDP32:
  "fst (ReadData s w [0x03, 0x01, 0x9D, 0x02, 0x88, 0x9B] 2)"
  "buffer (fst (snd (ReadData s w [0x03, 0x01, 0x9D, 0x02, 0x88, 0x9B] 2))) 0 = 0x03"
  "buffer (fst (snd (ReadData s w [0x03, 0x01, 0x9D, 0x02, 0x88, 0x9B] 2))) (Suc 0) = 0x01"
  "buffer (fst (snd (ReadData s w [0x03, 0x01, 0x9D, 0x02, 0x88, 0x9B] 2))) 2 = 0x02"
  "buffer (fst (snd (ReadData s w [0x03, 0x01, 0x9D, 0x02, 0x88, 0x9B] 2))) 3 = 0x88"
     apply (simp add: ReadData_ok_iff delivered_def crc_word_examples)
    apply (simp_all add: read_simps)
  done

lemma read_unknown:
  "fst (ReadData s w [0x00, 0x00, 0x81, 0x00, 0x00, 0x81] 2)"
  "buffer (fst (snd (ReadData s w [0x00, 0x00, 0x81, 0x00, 0x00, 0x81] 2))) 0 = 0"
  "buffer (fst (snd (ReadData s w [0x00, 0x00, 0x81, 0x00, 0x00, 0x81] 2))) (Suc 0) = 0"
  "buffer (fst (snd (ReadData s w [0x00, 0x00, 0x81, 0x00, 0x00, 0x81] 2))) 2 = 0"
  "buffer (fst (snd (ReadData s w [0x00, 0x00, 0x81, 0x00, 0x00, 0x81] 2))) 3 = 0"
     apply (simp add: ReadData_ok_iff delivered_def crc_word_examples)
    apply (simp_all add: read_simps)
  done

lemma read_serial_ok:
  "fst (ReadData s w
      [0x03, 0x01, 0x9D, 0x01, 0x88, 0xB6, 0x12, 0x34, 0x37, 0x56, 0x78, 0x7D,
       0x9A, 0xBC, 0xE0, 0xDE, 0xF0, 0xAA] 6)"
  by (simp add: ReadData_ok_iff delivered_def crc_word_examples)

lemma read_serial:
  "buffer (fst (snd (ReadData s w
      [0x03, 0x01, 0x9D, 0x01, 0x88, 0xB6, 0x12, 0x34, 0x37, 0x56, 0x78, 0x7D,
       0x9A, 0xBC, 0xE0, 0xDE, 0xF0, 0xAA] 6))) 0 = 0x03"
  "buffer (fst (snd (ReadData s w
      [0x03, 0x01, 0x9D, 0x01, 0x88, 0xB6, 0x12, 0x34, 0x37, 0x56, 0x78, 0x7D,
       0x9A, 0xBC, 0xE0, 0xDE, 0xF0, 0xAA] 6))) (Suc 0) = 0x01"
  "buffer (fst (snd (ReadData s w
      [0x03, 0x01, 0x9D, 0x01, 0x88, 0xB6, 0x12, 0x34, 0x37, 0x56, 0x78, 0x7D,
       0x9A, 0xBC, 0xE0, 0xDE, 0xF0, 0xAA] 6))) 2 = 0x01"
  "buffer (fst (snd (ReadData s w
      [0x03, 0x01, 0x9D, 0x01, 0x88, 0xB6, 0x12, 0x34, 0x37, 0x56, 0x78, 0x7D,
       0x9A, 0xBC, 0xE0, 0xDE, 0xF0, 0xAA] 6))) 3 = 0x88"
  "buffer (fst (snd (ReadData s w
      [0x03, 0x01, 0x9D, 0x01, 0x88, 0xB6, 0x12, 0x34, 0x37, 0x56, 0x78, 0x7D,
       0x9A, 0xBC, 0xE0, 0xDE, 0xF0, 0xAA] 6))) 4 = 0x12"
  "buffer (fst (snd (ReadData s w
      [0x03, 0x01, 0x9D, 0x01, 0x88, 0xB6, 0x12, 0x34, 0x37, 0x56, 0x78, 0x7D,
       0x9A, 0xBC, 0xE0, 0xDE, 0xF0, 0xAA] 6))) 5 = 0x34"
  "buffer (fst (snd (ReadData s w
      [0x03, 0x01, 0x9D, 0x01, 0x88, 0xB6, 0x12, 0x34, 0x37, 0x56, 0x78, 0x7D,
       0x9A, 0xBC, 0xE0, 0xDE, 0xF0, 0xAA] 6))) 6 = 0x56"
  "buffer (fst (snd (ReadData s w
      [0x03, 0x01, 0x9D, 0x01, 0x88, 0xB6, 0x12, 0x34, 0x37, 0x56, 0x78, 0x7D,
       0x9A, 0xBC, 0xE0, 0xDE, 0xF0, 0xAA] 6))) 7 = 0x78"
  "buffer (fst (snd (ReadData s w
      [0x03, 0x01, 0x9D, 0x01, 0x88, 0xB6, 0x12, 0x34, 0x37, 0x56, 0x78, 0x7D,
       0x9A, 0xBC, 0xE0, 0xDE, 0xF0, 0xAA] 6))) 8 = 0x9A"
  "buffer (fst (snd (ReadData s w
      [0x03, 0x01, 0x9D, 0x01, 0x88, 0xB6, 0x12, 0x34, 0x37, 0x56, 0x78, 0x7D,
       0x9A, 0xBC, 0xE0, 0xDE, 0xF0, 0xAA] 6))) 9 = 0xBC"
  "buffer (fst (snd (ReadData s w
      [0x03, 0x01, 0x9D, 0x01, 0x88, 0xB6, 0x12, 0x34, 0x37, 0x56, 0x78, 0x7D,
       0x9A, 0xBC, 0xE0, 0xDE, 0xF0, 0xAA] 6))) 10 = 0xDE"
  "buffer (fst (snd (ReadData s w
      [0x03, 0x01, 0x9D, 0x01, 0x88, 0xB6, 0x12, 0x34, 0x37, 0x56, 0x78, 0x7D,
       0x9A, 0xBC, 0xE0, 0xDE, 0xF0, 0xAA] 6))) 11 = 0xF0"
  by (simp_all add: read_simps)

lemma read_four_of_six:
  "\<not> fst (ReadData s w [0x03, 0x01, 0x9D, 0x01, 0x88, 0xB6, 0x12, 0x34, 0x37, 0x56, 0x78, 0x7D] 6)"
  "delivered 18 [0x03, 0x01, 0x9D, 0x01, 0x88, 0xB6, 0x12, 0x34, 0x37, 0x56, 0x78, 0x7D] =
     [0x03, 0x01, 0x9D, 0x01, 0x88, 0xB6, 0x12, 0x34, 0x37, 0x56, 0x78, 0x7D]"
  by (simp_all add: ReadData_ok_iff delivered_def)

lemma ack_simps: "status ack = 0" "accepted ack = 2"
  by (simp_all add: ack_def)

text \<open>
  Claim C7, with the word count of the code. \<^verbatim>\<open>ReadProductID\<close> writes the command
  \<^verbatim>\<open>36 7C\<close> and then the command \<^verbatim>\<open>E1 02\<close>, and stops with failure after the first
  write that fails, leaving the slots as they were. After two successful writes it
  reads 2 words when the serial pointer is null and 6 words otherwise, and fails
  when \<^verbatim>\<open>ReadData\<close> fails. On success the product ID is the big-endian 32-bit value
  of the buffer bytes 0 to 3 and the serial, when requested, the big-endian 64-bit
  value of the buffer bytes 4 to 11; these buffer bytes are the payload bytes of the
  words received, in wire order.
\<close>

theorem ReadProductID_steps:
  "(let ok1 = (status r1 = 0 \<and> accepted r1 = 2);
        ok2 = (status r2 = 0 \<and> accepted r2 = 2);
        n = (if serial = None then 2 else 6);
        tx1 = [BeginTransmission (addr s), WriteBytes [0x36, 0x7C], EndTransmission];
        tx2 = [BeginTransmission (addr s), WriteBytes [0xE1, 0x02], EndTransmission];
        rd = ReadData s (w\<lparr>events := events w @ tx1 @ tx2\<rparr>) resp n;
        s' = fst (snd rd);
        r = ReadProductID s w r1 r2 resp pid serial
    in (\<not> ok1 \<longrightarrow> r = (False, s, w\<lparr>events := events w @ tx1\<rparr>, pid, serial)) \<and>
       (ok1 \<and> \<not> ok2 \<longrightarrow> r = (False, s, w\<lparr>events := events w @ tx1 @ tx2\<rparr>, pid, serial)) \<and>
       (ok1 \<and> ok2 \<and> \<not> fst rd \<longrightarrow> r = (False, s', snd (snd rd), pid, serial)) \<and>
       (ok1 \<and> ok2 \<and> fst rd \<longrightarrow>
          r = (True, s', snd (snd rd),
               map_option (\<lambda>_. of_nat (unat (buffer s' 0) * 2 ^ 24 + unat (buffer s' 1) * 2 ^ 16
                                + unat (buffer s' 2) * 2 ^ 8 + unat (buffer s' 3))) pid,
               map_option (\<lambda>_. of_nat (unat (buffer s' 4) * 2 ^ 56 + unat (buffer s' 5) * 2 ^ 48
                                + unat (buffer s' 6) * 2 ^ 40 + unat (buffer s' 7) * 2 ^ 32
                                + unat (buffer s' 8) * 2 ^ 24 + unat (buffer s' 9) * 2 ^ 16
                                + unat (buffer s' 10) * 2 ^ 8 + unat (buffer s' 11))) serial) \<and>
          (\<forall>i<unat n. buffer s' (2 * i) = delivered (n * 3) resp ! (3 * i) \<and>
                       buffer s' (2 * i + 1) = delivered (n * 3) resp ! (3 * i + 1))) \<and>
       events (snd (snd rd)) =
         events w @ tx1 @ tx2 @ RequestFrom (addr s) (n * 3)
           # replicate (length (delivered (n * 3) resp)) ReadByte)"
proof -
  have pay: "fst (ReadData s w' resp n) \<longrightarrow>
             (\<forall>i<unat n. buffer (fst (snd (ReadData s w' resp n))) (2 * i)
                            = delivered (n * 3) resp ! (3 * i) \<and>
                          buffer (fst (snd (ReadData s w' resp n))) (2 * i + 1)
                            = delivered (n * 3) resp ! (3 * i + 1))" for w' n
    using ReadData_payload by blast
  show ?thesis
    using pay [of "w\<lparr>events := events w @
                     [BeginTransmission (addr s), WriteBytes [0x36, 0x7C], EndTransmission,
                      BeginTransmission (addr s), WriteBytes [0xE1, 0x02], EndTransmission]\<rparr>" 2]
          pay [of "w\<lparr>events := events w @
                     [BeginTransmission (addr s), WriteBytes [0x36, 0x7C], EndTransmission,
                      BeginTransmission (addr s), WriteBytes [0xE1, 0x02], EndTransmission]\<rparr>" 6]
    by (cases serial) (simp_all add: ReadProductID_eq Let_def ReadData_events)
qed

theorem ReadProductID_steps_witness:
  "fst (ReadProductID sensor idle_bus ack ack
          [0x03, 0x01, 0x9D, 0x01, 0x88, 0xB6, 0x12, 0x34, 0x37, 0x56, 0x78, 0x7D,
       0x9A, 0xBC, 0xE0, 0xDE, 0xF0, 0xAA]
          (Some 0) (Some 0)) \<and>
   fst (snd (snd (snd (ReadProductID sensor idle_bus ack ack
          [0x03, 0x01, 0x9D, 0x01, 0x88, 0xB6, 0x12, 0x34, 0x37, 0x56, 0x78, 0x7D,
       0x9A, 0xBC, 0xE0, 0xDE, 0xF0, 0xAA]
          (Some 0) (Some 0))))) = Some 0x03010188 \<and>
   snd (snd (snd (snd (ReadProductID sensor idle_bus ack ack
          [0x03, 0x01, 0x9D, 0x01, 0x88, 0xB6, 0x12, 0x34, 0x37, 0x56, 0x78, 0x7D,
       0x9A, 0xBC, 0xE0, 0xDE, 0xF0, 0xAA]
          (Some 0) (Some 0))))) = Some 0x123456789ABCDEF0"
proof -
  have "ReadProductID sensor idle_bus ack ack
          [0x03, 0x01, 0x9D, 0x01, 0x88, 0xB6, 0x12, 0x34, 0x37, 0x56, 0x78, 0x7D,
       0x9A, 0xBC, 0xE0, 0xDE, 0xF0, 0xAA]
          (Some 0) (Some 0) =
        (True,
         fst (snd (ReadData sensor
           (idle_bus\<lparr>events := events idle_bus @
              [BeginTransmission (addr sensor), WriteBytes [0x36, 0x7C], EndTransmission,
               BeginTransmission (addr sensor), WriteBytes [0xE1, 0x02], EndTransmission]\<rparr>)
           [0x03, 0x01, 0x9D, 0x01, 0x88, 0xB6, 0x12, 0x34, 0x37, 0x56, 0x78, 0x7D,
       0x9A, 0xBC, 0xE0, 0xDE, 0xF0, 0xAA] 6)),
         snd (snd (ReadData sensor
           (idle_bus\<lparr>events := events idle_bus @
              [BeginTransmission (addr sensor), WriteBytes [0x36, 0x7C], EndTransmission,
               BeginTransmission (addr sensor), WriteBytes [0xE1, 0x02], EndTransmission]\<rparr>)
           [0x03, 0x01, 0x9D, 0x01, 0x88, 0xB6, 0x12, 0x34, 0x37, 0x56, 0x78, 0x7D,
       0x9A, 0xBC, 0xE0, 0xDE, 0xF0, 0xAA] 6)),
         Some 0x03010188, Some 0x123456789ABCDEF0)"
    using ReadProductID_steps
      [of ack ack "Some 0" sensor idle_bus
          "[0x03, 0x01, 0x9D, 0x01, 0x88, 0xB6, 0x12, 0x34, 0x37, 0x56, 0x78, 0x7D,
       0x9A, 0xBC, 0xE0, 0xDE, 0xF0, 0xAA]" "Some 0"]
    by (simp add: Let_def ack_simps read_serial_ok read_serial)
  then show ?thesis
    by simp
qed

text \<open>
  Claim C7 as stated, with 4 words for a serial, fails: asked for product ID and
  serial, the driver requests 18 bytes, which are 6 words, and when the device
  answers with 4 well-formed words the call fails after reading the 12 bytes.
\<close>

theorem ReadProductID_four_words_counterexample:
  "events (fst (snd (snd (ReadProductID sensor idle_bus ack ack
      [0x03, 0x01, 0x9D, 0x01, 0x88, 0xB6, 0x12, 0x34, 0x37, 0x56, 0x78, 0x7D]
      (Some 0) (Some 0))))) =
     [BeginTransmission 0x21, WriteBytes [0x36, 0x7C], EndTransmission,
      BeginTransmission 0x21, WriteBytes [0xE1, 0x02], EndTransmission,
      RequestFrom 0x21 18,
      ReadByte, ReadByte, ReadByte, ReadByte, ReadByte, ReadByte,
      ReadByte, ReadByte, ReadByte, ReadByte, ReadByte, ReadByte] \<and>
   \<not> fst (ReadProductID sensor idle_bus ack ack
      [0x03, 0x01, 0x9D, 0x01, 0x88, 0xB6, 0x12, 0x34, 0x37, 0x56, 0x78, 0x7D]
      (Some 0) (Some 0))"
proof -
  have a: "addr sensor = 0x21" "events idle_bus = []"
    by (simp_all add: sensor_def SDP3x_new_def idle_bus_def)
  show ?thesis
    by (simp add: ReadProductID_eq Let_def ack_simps read_four_of_six ReadData_events a)
qed

lemma ReadProductID_number:
  "number (fst (snd (ReadProductID s w r1 r2 resp pid serial))) = number s"
  by (simp add: ReadProductID_eq Let_def ReadData_fields)

lemma ReadProductID_SDP32:
  "fst (ReadProductID sensor idle_bus ack ack [0x03, 0x01, 0x9D, 0x02, 0x88, 0x9B] (Some 0) None)"
  "fst (snd (snd (snd (ReadProductID sensor idle_bus ack ack
          [0x03, 0x01, 0x9D, 0x02, 0x88, 0x9B] (Some 0) None)))) = Some SDP32_PID"
  by (simp_all add: ReadProductID_eq Let_def ack_simps read_SDP32 SDP32_PID_def)

lemma ReadProductID_unknown:
  "fst (ReadProductID sensor idle_bus ack ack [0x00, 0x00, 0x81, 0x00, 0x00, 0x81] (Some 0) None)"
  "fst (snd (snd (snd (ReadProductID sensor idle_bus ack ack
          [0x00, 0x00, 0x81, 0x00, 0x00, 0x81] (Some 0) None)))) = Some 0"
  by (simp_all add: ReadProductID_eq Let_def ack_simps read_unknown)

lemma number_sensor: "number sensor = SDP31"
  by (simp add: sensor_def SDP3x_new_def static_storage_def SDP31_def)

text \<open>
  What \<^verbatim>\<open>Begin\<close> does with the product ID it reads: \<^verbatim>\<open>0x03010188\<close> selects
  \<^verbatim>\<open>SDP31\<close> and \<^verbatim>\<open>GetPressureScale\<close> returns 60, \<^verbatim>\<open>0x03010288\<close> selects \<^verbatim>\<open>SDP32\<close>
  and \<^verbatim>\<open>GetPressureScale\<close> returns 240; with any other product ID \<^verbatim>\<open>Begin\<close> fails
  and does not assign the field \<^verbatim>\<open>number\<close>.
\<close>

lemma Begin_selects_model:
  assumes "fst (ReadProductID s w r1 r2 resp (Some modelNumber0) None)"
    and "fst (snd (snd (snd (ReadProductID s w r1 r2 resp (Some modelNumber0) None)))) = Some p"
  shows "(p = SDP31_PID \<longrightarrow>
            fst (Begin s w r1 r2 resp modelNumber0) \<and>
            GetPressureScale (fst (snd (Begin s w r1 r2 resp modelNumber0))) = 60) \<and>
         (p = SDP32_PID \<longrightarrow>
            fst (Begin s w r1 r2 resp modelNumber0) \<and>
            GetPressureScale (fst (snd (Begin s w r1 r2 resp modelNumber0))) = 240) \<and>
         (p \<noteq> SDP31_PID \<and> p \<noteq> SDP32_PID \<longrightarrow>
            \<not> fst (Begin s w r1 r2 resp modelNumber0) \<and>
            number (fst (snd (Begin s w r1 r2 resp modelNumber0))) = number s)"
  using assms ReadProductID_number [of s w r1 r2 resp "Some modelNumber0" None]
  by (auto simp: Begin_def Let_def case_prod_beta GetPressureScale_def SDP31_def SDP32_def
      SDP31_PID_def SDP32_PID_def SDP31_DiffScale_def SDP32_DiffScale_def)

lemma Begin_SDP32_example:
  "fst (Begin sensor idle_bus ack ack [0x03, 0x01, 0x9D, 0x02, 0x88, 0x9B] 0) \<and>
   GetPressureScale (fst (snd (Begin sensor idle_bus ack ack [0x03, 0x01, 0x9D, 0x02, 0x88, 0x9B] 0)))
     = 240"
  using Begin_selects_model [OF ReadProductID_SDP32]
  by simp

text \<open>
  Claim C8. After \<^verbatim>\<open>Begin\<close> has read a product ID that is neither \<^verbatim>\<open>0x03010188\<close>
  nor \<^verbatim>\<open>0x03010288\<close>, initialisation has failed, the model is undetermined and
  \<^verbatim>\<open>GetPressureScale\<close> is to return the fallback value 1 of its \<^verbatim>\<open>default\<close> branch.
  The code does not: the constructor never initialises the field \<^verbatim>\<open>number\<close> and
  \<^verbatim>\<open>Begin\<close> does not assign it on an unknown ID. For the sensor object of the README,
  built in zero-initialised static storage, a device that answers with the product
  ID 0 makes \<^verbatim>\<open>Begin\<close> fail, and \<^verbatim>\<open>GetPressureScale\<close> then returns 60, the scale
  of an SDP31.
\<close>

theorem Begin_unknown_id_scale:
  "fst (snd (snd (snd (ReadProductID sensor idle_bus ack ack [0x00, 0x00, 0x81, 0x00, 0x00, 0x81]
                  (Some 0) None)))) = Some 0 \<and>
   \<not> fst (Begin sensor idle_bus ack ack [0x00, 0x00, 0x81, 0x00, 0x00, 0x81] 0) \<and>
   GetPressureScale (fst (snd (Begin sensor idle_bus ack ack [0x00, 0x00, 0x81, 0x00, 0x00, 0x81] 0)))
     = 60"
proof -
  have failed: "\<not> fst (Begin sensor idle_bus ack ack [0x00, 0x00, 0x81, 0x00, 0x00, 0x81] 0)"
    by (simp add: Begin_def Let_def case_prod_beta ReadProductID_unknown
        SDP31_PID_def SDP32_PID_def)
  have "number (fst (snd (Begin sensor idle_bus ack ack [0x00, 0x00, 0x81, 0x00, 0x00, 0x81] 0)))
          = SDP31"
    by (simp add: Begin_def Let_def case_prod_beta ReadProductID_unknown
        SDP31_PID_def SDP32_PID_def ReadProductID_number number_sensor)
  then have "GetPressureScale
               (fst (snd (Begin sensor idle_bus ack ack [0x00, 0x00, 0x81, 0x00, 0x00, 0x81] 0)))
             = 60"
    by (simp add: GetPressureScale_def SDP31_DiffScale_def)
  with failed ReadProductID_unknown(2) show ?thesis
    by simp
qed

end
